theory Spec2Isabelle
  imports Main "HOL-Library.AList" "HOL-Library.Sublist"
begin

section \<open>Data model of the client (services/api.ts)\<close>

text \<open>
  The repository's client is a React application. Its state lives in \<^verbatim>\<open>useState\<close> cells,
  its effects are HTTP requests through \<^verbatim>\<open>apiService\<close> and timers created by
  \<^verbatim>\<open>setInterval\<close>. The embedding passes the state explicitly, returns the requests a
  handler issues as a list (in the order the handler issues them), and takes the server's
  answer to each request as an argument of the handler: a rejected promise is \<open>Inl\<close>, a
  resolved one \<open>Inr\<close>. One handler invocation, or one timer callback, is one atomic step.

  JavaScript strings are modelled as \<^typ>\<open>string\<close>; TypeScript's types are erased at run
  time, so the \<^verbatim>\<open>status\<close> of a job received from the server is whatever string the
  server sent.
\<close>

record GenomeData =
  url :: string
  genus :: string
  species :: string
  strain :: string
  organism :: string
  assembly_accession :: string
  assembly_name :: string
  assembly_level :: string
  taxonomy_id :: string
  submitter :: string
  submission_date :: string
  contig_count :: string
  genome_size :: string
  bioproject_id :: string

text \<open>
  \<^verbatim>\<open>result: any\<close>. The only member the client reads to decide anything is
  \<^verbatim>\<open>result?.genomes\<close>; \<open>None\<close> stands for a missing (undefined or null) value on either
  level. An array, also the empty one, is truthy in JavaScript.
\<close>

record job_result =
  genomes :: "GenomeData list option"

record JobStatus =
  job_id :: string
  job_type :: string
  status :: string
  progress :: int
  result :: "job_result option"
  error :: "string option"
  created_at :: string
  completed_at :: "string option"

text \<open>
  The union type that \<^verbatim>\<open>interface JobStatus\<close> declares for its \<^verbatim>\<open>status\<close> member:
  \<^verbatim>\<open>status: 'pending' | 'running' | 'completed' | 'failed'\<close>.
\<close>

definition JobStatus_status :: "string list" where
  "JobStatus_status = [''pending'', ''running'', ''completed'', ''failed'']"

text \<open>
  \<^verbatim>\<open>FetchGenomesResponse\<close> and \<^verbatim>\<open>AnalysisResponse\<close> have the same three members; their
  names carry the prefix \<open>response_\<close> because a record field is a global constant.
\<close>

record AnalysisResponse =
  response_job_id :: string
  response_message :: string
  response_status :: string

type_synonym FetchGenomesResponse = AnalysisResponse

text \<open>
  The rejection of an axios promise. The handlers read \<^verbatim>\<open>err.response?.data?.error\<close> and
  \<^verbatim>\<open>err.message\<close>.
\<close>

datatype api_error = ApiError (response_data_error: "string option") (message: string)

type_synonym 'a reply = "api_error + 'a"

text \<open>
  The HTTP requests the client can issue. \<open>LinkClick href name\<close> is the click on a link to a
  server URL with the \<^verbatim>\<open>download\<close> attribute \<open>name\<close>; \<open>SaveBlob name\<close> is the same click on a
  link to a blob already received, which only saves it under \<open>name\<close>.
\<close>

datatype request =
    PostFetchGenomes string
  | PostRunResfinder "GenomeData list"
  | PostRunPhastest "GenomeData list"
  | PostRunVfdb "GenomeData list"
  | GetJobStatus string
  | GetJobs
  | GetDownload string string
  | GetPhastestStatus
  | GetPhastestZipFiles
  | GetTempFastaZipFiles
  | GetResfinderFastaZip
  | DeleteCleanup string
  | LinkClick string string
  | SaveBlob string

text \<open>The requests that submit a job.\<close>

fun is_submission :: "request \<Rightarrow> bool" where
  "is_submission (PostFetchGenomes _) = True"
| "is_submission (PostRunResfinder _) = True"
| "is_submission (PostRunPhastest _) = True"
| "is_submission (PostRunVfdb _) = True"
| "is_submission _ = False"

text \<open>\<^verbatim>\<open>a || b\<close> on an optional string: undefined, null and the empty string are falsy.\<close>

definition js_or :: "string option \<Rightarrow> string \<Rightarrow> string" where
  "js_or a b = (case a of None \<Rightarrow> b | Some x \<Rightarrow> if x = [] then b else x)"

text \<open>\<^verbatim>\<open>String.prototype.startsWith\<close> and \<^verbatim>\<open>String.prototype.includes\<close>.\<close>

fun startsWith :: "string \<Rightarrow> string \<Rightarrow> bool" where
  "startsWith s [] = True"
| "startsWith [] (c # cs) = False"
| "startsWith (x # xs) (c # cs) = (x = c \<and> startsWith xs cs)"

fun js_includes :: "string \<Rightarrow> string \<Rightarrow> bool" where
  "js_includes [] sub = (sub = [])"
| "js_includes (x # xs) sub = (startsWith (x # xs) sub \<or> js_includes xs sub)"

section \<open>The Jobs page (pages/Jobs.tsx)\<close>

record jobs_page =
  jobs :: "JobStatus list"
  jobs_loading :: bool
  jobs_error :: "string option"
  actionLoading :: "string option"

text \<open>\<^verbatim>\<open>loadJobs\<close>: list the jobs and replace the page's list.\<close>

definition Jobs_loadJobs :: "JobStatus list reply \<Rightarrow> jobs_page \<Rightarrow> jobs_page \<times> request list" where
  "Jobs_loadJobs listing s =
     (case listing of
        Inr response_jobs \<Rightarrow> (s\<lparr>jobs := response_jobs, jobs_loading := False\<rparr>, [GetJobs])
      | Inl err \<Rightarrow>
          (s\<lparr>jobs_error := Some (js_or (Some (message err)) ''Failed to load jobs''),
             jobs_loading := False\<rparr>, [GetJobs]))"

text \<open>
  \<^verbatim>\<open>handleDeleteJob\<close>: \<^verbatim>\<open>await apiService.cleanupJob(jobId)\<close>, then
  \<^verbatim>\<open>setJobs(jobs.filter(job => job.job_id !== jobId))\<close>; a rejected request only sets the
  error message. The handler is a closure of the render in which the button was clicked:
  \<open>captured\<close> is the \<^verbatim>\<open>jobs\<close> of that render, the list the handler filters, and \<open>s\<close> is the
  state of the page when the answer to the cleanup request arrives, the state the handler
  writes. The two differ when the list was reloaded, or another deletion was answered,
  between the click and the answer.
\<close>

definition Jobs_handleDeleteJob ::
  "string \<Rightarrow> unit reply \<Rightarrow> JobStatus list \<Rightarrow> jobs_page \<Rightarrow> jobs_page \<times> request list" where
  "Jobs_handleDeleteJob jobId cleanup captured s =
     (case cleanup of
        Inr _ \<Rightarrow> (s\<lparr>jobs := filter (\<lambda>job. job_id job \<noteq> jobId) captured\<rparr>, [DeleteCleanup jobId])
      | Inl err \<Rightarrow> (s\<lparr>jobs_error := Some ''Failed to delete job''\<rparr>, [DeleteCleanup jobId]))"

text \<open>
  The file name \<^verbatim>\<open>handleDownload\<close> gives the downloaded blob
  (\<^verbatim>\<open>link.download = filename\<close>).
\<close>

definition Jobs_download_filename :: "string \<Rightarrow> string \<Rightarrow> string" where
  "Jobs_download_filename jobId fileType =
     (if js_includes fileType ''vfdb'' then ''vfdb_results.xlsx''
      else if js_includes fileType ''resfinder'' then ''resfinder_results.csv''
      else if fileType = ''phastest_csv'' then ''phastest_results.csv''
      else if fileType = ''phastest_zip'' then ''phastest_results_'' @ jobId @ ''.zip''
      else ''results'')"

definition Jobs_handleDownload ::
  "string \<Rightarrow> string \<Rightarrow> unit reply \<Rightarrow> jobs_page \<Rightarrow> jobs_page \<times> request list" where
  "Jobs_handleDownload jobId fileType blob s =
     (case blob of
        Inr _ \<Rightarrow>
          (s, [GetDownload jobId fileType, SaveBlob (Jobs_download_filename jobId fileType)])
      | Inl err \<Rightarrow> (s\<lparr>jobs_error := Some ''Failed to download file''\<rparr>, [GetDownload jobId fileType]))"

text \<open>The three summary counters are the lengths of these lists.\<close>

definition runningJobs :: "JobStatus list \<Rightarrow> JobStatus list" where
  "runningJobs js = filter (\<lambda>job. status job \<in> set [''pending'', ''running'']) js"

definition completedJobs :: "JobStatus list \<Rightarrow> JobStatus list" where
  "completedJobs js = filter (\<lambda>job. status job = ''completed'') js"

definition failedJobs :: "JobStatus list \<Rightarrow> JobStatus list" where
  "failedJobs js = filter (\<lambda>job. status job = ''failed'') js"

text \<open>
  \<^verbatim>\<open>apiService.stopJob\<close> and \<^verbatim>\<open>apiService.resumeJob\<close> are placeholders: they write a
  line to the console and resolve, without a request.
\<close>

definition stopJob :: "string \<Rightarrow> request list \<times> unit reply" where
  "stopJob jobId = ([], Inr ())"

definition resumeJob :: "string \<Rightarrow> request list \<times> unit reply" where
  "resumeJob jobId = ([], Inr ())"

text \<open>
  \<^verbatim>\<open>handleStopJob\<close> and \<^verbatim>\<open>handleResumeJob\<close>: mark the action, await the service call,
  reload the job list, clear the mark; a rejected service call sets the error message.
\<close>

definition handleStopJob :: "string \<Rightarrow> JobStatus list reply \<Rightarrow> jobs_page \<Rightarrow> jobs_page \<times> request list" where
  "handleStopJob jobId listing s =
     (let s1 = s\<lparr>actionLoading := Some (jobId @ ''-stop'')\<rparr>;
          (rq, r) = stopJob jobId
      in case r of
           Inr _ \<Rightarrow> (let (s2, rq2) = Jobs_loadJobs listing s1 in (s2\<lparr>actionLoading := None\<rparr>, rq @ rq2))
         | Inl err \<Rightarrow> (s1\<lparr>jobs_error := Some ''Failed to stop job'', actionLoading := None\<rparr>, rq))"

definition handleResumeJob :: "string \<Rightarrow> JobStatus list reply \<Rightarrow> jobs_page \<Rightarrow> jobs_page \<times> request list" where
  "handleResumeJob jobId listing s =
     (let s1 = s\<lparr>actionLoading := Some (jobId @ ''-resume'')\<rparr>;
          (rq, r) = resumeJob jobId
      in case r of
           Inr _ \<Rightarrow> (let (s2, rq2) = Jobs_loadJobs listing s1 in (s2\<lparr>actionLoading := None\<rparr>, rq @ rq2))
         | Inl err \<Rightarrow> (s1\<lparr>jobs_error := Some ''Failed to resume job'', actionLoading := None\<rparr>, rq))"

text \<open>
  The buttons of a row of the job table (the \<^verbatim>\<open>renderCell\<close> of the actions column), in the
  order they are rendered, each with its \<^verbatim>\<open>disabled\<close> flag. \<open>Download jobId fileType\<close>
  calls \<^verbatim>\<open>handleDownload(jobId, fileType)\<close>, and so on.
\<close>

datatype action = Download string string | StopJob string | ResumeJob string | DeleteJob string

definition isAnalysisJob :: "JobStatus \<Rightarrow> bool" where
  "isAnalysisJob job = (job_type job \<in> set [''resfinder'', ''phastest'', ''vfdb''])"

definition Jobs_actions :: "string option \<Rightarrow> JobStatus \<Rightarrow> (action \<times> bool) list" where
  "Jobs_actions marked job =
     (let isCompleted = (status job = ''completed'');
          isRunning = (status job = ''running'');
          isPaused = (status job = ''paused'')
      in (if isAnalysisJob job \<and> isCompleted
          then [(Download (job_id job) (job_type job @ ''_csv''), False)] else [])
       @ (if job_type job = ''phastest'' \<and> isCompleted
          then [(Download (job_id job) ''phastest_zip'', False)] else [])
       @ (if isAnalysisJob job \<and> isRunning
          then [(StopJob (job_id job), marked = Some (job_id job @ ''-stop''))] else [])
       @ (if isAnalysisJob job \<and> isPaused
          then [(ResumeJob (job_id job), marked = Some (job_id job @ ''-resume''))] else [])
       @ [(DeleteJob (job_id job), False)])"

section \<open>The Results page (pages/Results.tsx)\<close>

record results_page =
  results_jobs :: "JobStatus list"
  results_loading :: bool
  results_error :: "string option"

text \<open>\<^verbatim>\<open>loadJobs\<close> keeps the completed jobs of the listing.\<close>

definition Results_loadJobs ::
  "JobStatus list reply \<Rightarrow> results_page \<Rightarrow> results_page \<times> request list" where
  "Results_loadJobs listing s =
     (case listing of
        Inr response_jobs \<Rightarrow>
          (s\<lparr>results_jobs := filter (\<lambda>job. status job = ''completed'') response_jobs,
             results_loading := False\<rparr>, [GetJobs])
      | Inl err \<Rightarrow>
          (s\<lparr>results_error := Some (js_or (Some (message err)) ''Failed to load jobs''),
             results_loading := False\<rparr>, [GetJobs]))"

text \<open>
  \<^verbatim>\<open>handleDeleteJob\<close>, as on the Jobs page: \<open>captured\<close> is the list of the render in which the
  button was clicked, \<open>s\<close> the state when the cleanup request is answered.
\<close>

definition Results_handleDeleteJob ::
  "string \<Rightarrow> unit reply \<Rightarrow> JobStatus list \<Rightarrow> results_page \<Rightarrow> results_page \<times> request list" where
  "Results_handleDeleteJob jobId cleanup captured s =
     (case cleanup of
        Inr _ \<Rightarrow>
          (s\<lparr>results_jobs := filter (\<lambda>job. job_id job \<noteq> jobId) captured\<rparr>,
           [DeleteCleanup jobId])
      | Inl err \<Rightarrow> (s\<lparr>results_error := Some ''Failed to delete job''\<rparr>, [DeleteCleanup jobId]))"

definition Results_download_filename :: "string \<Rightarrow> string \<Rightarrow> string" where
  "Results_download_filename jobId fileType =
     (if js_includes fileType ''vfdb'' then ''vfdb_results.xlsx''
      else if js_includes fileType ''resfinder'' then ''resfinder_results.csv''
      else if fileType = ''phastest_csv'' then ''phastest_results.csv''
      else if fileType = ''phastest_zip'' then ''phastest_results_'' @ jobId @ ''.zip''
      else ''results'')"

definition Results_handleDownload ::
  "string \<Rightarrow> string \<Rightarrow> unit reply \<Rightarrow> results_page \<Rightarrow> results_page \<times> request list" where
  "Results_handleDownload jobId fileType blob s =
     (case blob of
        Inr _ \<Rightarrow>
          (s, [GetDownload jobId fileType, SaveBlob (Results_download_filename jobId fileType)])
      | Inl err \<Rightarrow>
          (s\<lparr>results_error := Some ''Failed to download file''\<rparr>, [GetDownload jobId fileType]))"

definition Results_actions :: "JobStatus \<Rightarrow> action list" where
  "Results_actions job =
     (if isAnalysisJob job then [Download (job_id job) (job_type job @ ''_csv'')] else [])
     @ (if job_type job = ''phastest'' then [Download (job_id job) ''phastest_zip''] else [])
     @ [DeleteJob (job_id job)]"

section \<open>The Dashboard (pages/Dashboard.tsx)\<close>

text \<open>
  \<^verbatim>\<open>handleRunAnalysis\<close> takes \<^verbatim>\<open>type: 'resfinder' | 'phastest' | 'vfdb'\<close>; the
  \<^verbatim>\<open>default\<close> branch of its \<^verbatim>\<open>switch\<close> cannot be reached.
\<close>

datatype analysis_type = resfinder | phastest | vfdb

fun type_name :: "analysis_type \<Rightarrow> string" where
  "type_name resfinder = ''resfinder''"
| "type_name phastest = ''phastest''"
| "type_name vfdb = ''vfdb''"

text \<open>The answer of \<^verbatim>\<open>checkPhastestStatus\<close>.\<close>

record phastest_probe =
  probe_status :: string
  probe_status_code :: "int option"
  probe_error :: "string option"

text \<open>
  A timer created by the \<^verbatim>\<open>setInterval\<close> of \<^verbatim>\<open>handleRunAnalysis\<close>: the type and job
  identifier its callback closes over, and whether it has not been cleared yet. The timers
  are kept in the order of their creation; the position of a timer is its identity.
\<close>

record run_poller =
  poll_type :: analysis_type
  poll_jobId :: string
  poll_active :: bool

text \<open>
  The state cells of the component that its handlers for jobs read or write
  (\<^verbatim>\<open>error\<close> and \<^verbatim>\<open>loading\<close> carry the prefix \<open>dashboard_\<close>), and the timers.
  \<^verbatim>\<open>analysisJobs\<close> is an object keyed by the analysis type: an association list in the order
  of insertion, which is the order of \<^verbatim>\<open>Object.entries\<close>. The cells of the genome dialog
  and of the two zip file listings are left out.
\<close>

record dashboard =
  bioprojectId :: string
  genomeUrls :: "GenomeData list"
  dashboard_loading :: bool
  dashboard_error :: "string option"
  successMessage :: "string option"
  fetchJobId :: "string option"
  fetchStatus :: "JobStatus option"
  analysisJobs :: "(string \<times> JobStatus) list"
  showPhastestFallback :: bool
  downloadingFasta :: bool
  pollIntervals :: "run_poller list"

definition initial :: dashboard where
  "initial = \<lparr>bioprojectId = [], genomeUrls = [], dashboard_loading = False,
     dashboard_error = None, successMessage = None, fetchJobId = None, fetchStatus = None,
     analysisJobs = [], showPhastestFallback = False, downloadingFasta = False,
     pollIntervals = []\<rparr>"

text \<open>
  \<^verbatim>\<open>String.prototype.trim\<close> removes white space and line terminators from both ends.
  A \<^typ>\<open>char\<close> is a code unit below 256; in that range these are TAB, LF, VT, FF, CR,
  SP and NBSP.
\<close>

definition isWhiteSpace :: "char \<Rightarrow> bool" where
  "isWhiteSpace c = (of_char c \<in> set [9, 10, 11, 12, 13, 32, 160 :: nat])"

definition trim :: "string \<Rightarrow> string" where
  "trim s = rev (dropWhile isWhiteSpace (rev (dropWhile isWhiteSpace s)))"

subsection \<open>Handlers\<close>

definition handleFetchGenomes :: "FetchGenomesResponse reply \<Rightarrow> dashboard \<Rightarrow> dashboard \<times> request list" where
  "handleFetchGenomes submitted s =
     (if trim (bioprojectId s) = [] then
        (s\<lparr>dashboard_error := Some ''Please enter a BioProject ID''\<rparr>, [])
      else
        (let s1 = s\<lparr>dashboard_loading := True, dashboard_error := None, fetchStatus := None\<rparr>
         in case submitted of
              Inr response \<Rightarrow>
                (s1\<lparr>fetchJobId := Some (response_job_id response), dashboard_loading := False\<rparr>,
                 [PostFetchGenomes (bioprojectId s)])
            | Inl err \<Rightarrow>
                (s1\<lparr>dashboard_error :=
                       Some (js_or (response_data_error err) ''Failed to start genome fetching''),
                    dashboard_loading := False\<rparr>,
                 [PostFetchGenomes (bioprojectId s)])))"

fun run_request :: "analysis_type \<Rightarrow> GenomeData list \<Rightarrow> request" where
  "run_request resfinder gs = PostRunResfinder gs"
| "run_request phastest gs = PostRunPhastest gs"
| "run_request vfdb gs = PostRunVfdb gs"

text \<open>
  \<^verbatim>\<open>handleRunAnalysis(type)\<close>. \<open>probe\<close> answers \<^verbatim>\<open>checkPhastestStatus\<close>, \<open>submitted\<close>
  answers the run request, \<open>now\<close> is \<^verbatim>\<open>new Date().toISOString()\<close>. On a submission that
  succeeds the handler stores a pending entry under the type and starts a timer.
\<close>

definition probe_unavailable :: "phastest_probe reply \<Rightarrow> bool" where
  "probe_unavailable probe =
     (case probe of Inl statusError \<Rightarrow> True
      | Inr statusResponse \<Rightarrow> probe_status statusResponse = ''unavailable'')"

definition handleRunAnalysis ::
  "analysis_type \<Rightarrow> phastest_probe reply \<Rightarrow> AnalysisResponse reply \<Rightarrow> string \<Rightarrow> dashboard
     \<Rightarrow> dashboard \<times> request list" where
  "handleRunAnalysis type probe submitted now s =
     (let s0 = s\<lparr>dashboard_error := None\<rparr> in
      if type = phastest \<and> probe_unavailable probe then
        (s0\<lparr>showPhastestFallback := True\<rparr>, [GetPhastestStatus])
      else
        (let probed = (if type = phastest then [GetPhastestStatus] else []) in
         case submitted of
           Inl err \<Rightarrow>
             (s0\<lparr>dashboard_error :=
                   Some (js_or (response_data_error err)
                     (js_or (Some (message err))
                        (''Failed to start '' @ type_name type @ '' analysis'')))\<rparr>,
              probed @ [run_request type (genomeUrls s)])
         | Inr response \<Rightarrow>
             (s0\<lparr>analysisJobs :=
                   AList.update (type_name type)
                     \<lparr>job_id = response_job_id response, job_type = type_name type,
                      status = ''pending'', progress = 0, result = None, error = None,
                      created_at = now, completed_at = None\<rparr>
                     (analysisJobs s0),
                 pollIntervals := pollIntervals s0 @
                   [\<lparr>poll_type = type, poll_jobId = response_job_id response,
                     poll_active = True\<rparr>]\<rparr>,
              probed @ [run_request type (genomeUrls s)])))"

text \<open>
  \<^verbatim>\<open>handlePhastestFallback\<close> builds a link to the bundling endpoint and clicks it. \<open>env\<close>
  is \<^verbatim>\<open>process.env.REACT_APP_API_URL\<close>.
\<close>

definition handlePhastestFallback :: "string option \<Rightarrow> dashboard \<Rightarrow> dashboard \<times> request list" where
  "handlePhastestFallback env s =
     (let downloadUrl = js_or env ''http://localhost:5000'' @ ''/api/download-resfinder-fasta-zip''
      in (s\<lparr>downloadingFasta := False, dashboard_error := None,
            successMessage := Some ''FASTA files download started! Check your downloads folder.'',
            showPhastestFallback := False\<rparr>,
          [LinkClick downloadUrl ''phastest_fasta_files.zip'']))"

text \<open>\<^verbatim>\<open>apiService.downloadResfinderFastaZip\<close>: one GET; a rejection is thrown again.\<close>

definition downloadResfinderFastaZip :: "unit reply \<Rightarrow> request list \<times> unit reply" where
  "downloadResfinderFastaZip blob = ([GetResfinderFastaZip], blob)"

text \<open>\<^verbatim>\<open>handleManualDownload(type, jobId)\<close> and \<^verbatim>\<open>handleDownloadPhastestZip\<close>.\<close>

definition manual_download_fileType :: "string \<Rightarrow> string" where
  "manual_download_fileType type = (if type = ''vfdb'' then ''vfdb_excel'' else type @ ''_csv'')"

definition manual_download_filename :: "string \<Rightarrow> string" where
  "manual_download_filename type =
     (if type = ''vfdb'' then ''vfdb_results.xlsx'' else type @ ''_results.csv'')"

definition handleManualDownload ::
  "string \<Rightarrow> string \<Rightarrow> unit reply \<Rightarrow> dashboard \<Rightarrow> dashboard \<times> request list" where
  "handleManualDownload type jobId blob s =
     (case blob of
        Inr _ \<Rightarrow>
          (s, [GetDownload jobId (manual_download_fileType type),
               SaveBlob (manual_download_filename type)])
      | Inl err \<Rightarrow>
          (s\<lparr>dashboard_error :=
                Some (''Failed to download '' @ type @ '' results: '' @ message err)\<rparr>,
           [GetDownload jobId (manual_download_fileType type)]))"

definition handleDownloadPhastestZip :: "unit reply \<Rightarrow> dashboard \<Rightarrow> dashboard \<times> request list" where
  "handleDownloadPhastestZip blob s =
     (case find (\<lambda>job. job_type job = ''phastest'' \<and> status job = ''completed'')
             (map snd (analysisJobs s)) of
        None \<Rightarrow> (s\<lparr>dashboard_error := Some ''No completed PHASTEST job found''\<rparr>, [])
      | Some phastestJob \<Rightarrow>
          (case blob of
             Inr _ \<Rightarrow>
               (s, [GetDownload (job_id phastestJob) ''phastest_zip'',
                    SaveBlob (''phastest_results_'' @ job_id phastestJob @ ''.zip'')])
           | Inl err \<Rightarrow>
               (s\<lparr>dashboard_error :=
                     Some (''Failed to download PHASTEST zip files: '' @ message err)\<rparr>,
                [GetDownload (job_id phastestJob) ''phastest_zip''])))"

subsection \<open>Timers\<close>

text \<open>
  The callbacks of the three timers, each taken together with the answer to its query as
  one step. The timed runs further below split a callback where it awaits the answer.
\<close>

text \<open>
  The callback of the first effect: while \<^verbatim>\<open>fetchJobId\<close> is truthy (neither null nor the
  empty string), query the fetch job. \<open>result_genomes\<close> is \<^verbatim>\<open>status.result?.genomes\<close>.
  The listing requests this effect issues when it starts are not requests about a job and
  are left out.
\<close>

definition result_genomes :: "JobStatus \<Rightarrow> GenomeData list option" where
  "result_genomes st = Option.bind (result st) genomes"

definition fetchPollTick :: "JobStatus reply \<Rightarrow> dashboard \<Rightarrow> dashboard \<times> request list" where
  "fetchPollTick answer s =
     (case fetchJobId s of
        None \<Rightarrow> (s, [])
      | Some jobId \<Rightarrow>
          if jobId = [] then (s, []) else
          (case answer of
             Inl err \<Rightarrow> (s, [GetJobStatus jobId])
           | Inr st \<Rightarrow>
               (let s1 = s\<lparr>fetchStatus := Some st\<rparr> in
                (if status st = ''completed'' \<and> result_genomes st \<noteq> None then
                   s1\<lparr>genomeUrls := the (result_genomes st), fetchJobId := None\<rparr>
                 else if status st = ''failed'' then
                   s1\<lparr>dashboard_error := Some (js_or (error st) ''Failed to fetch genomes''),
                      fetchJobId := None\<rparr>
                 else s1),
                [GetJobStatus jobId])))"

text \<open>
  The callback of the second effect: the entries whose stored status is pending or running
  are queried one after the other, each answer replacing the entry under its key; a
  completed PHASTEST job also refreshes the zip file listing. A rejected query is logged.
  \<open>answers\<close> gives the server's answer to the query of a job identifier; \<open>pollJob\<close> is the
  body of the loop.
\<close>

definition jobsToPoll :: "dashboard \<Rightarrow> (string \<times> JobStatus) list" where
  "jobsToPoll s = filter (\<lambda>(type, job). status job \<in> set [''pending'', ''running'']) (analysisJobs s)"

definition pollJob ::
  "(string \<Rightarrow> JobStatus reply) \<Rightarrow> string \<times> JobStatus \<Rightarrow> dashboard \<Rightarrow> dashboard \<times> request list" where
  "pollJob answers entry s =
     (case entry of (type, job) \<Rightarrow>
        (case answers (job_id job) of
           Inr st \<Rightarrow>
             (s\<lparr>analysisJobs := AList.update type st (analysisJobs s)\<rparr>,
              GetJobStatus (job_id job)
                # (if type = ''phastest'' \<and> status st = ''completed''
                   then [GetPhastestZipFiles] else []))
         | Inl err \<Rightarrow> (s, [GetJobStatus (job_id job)])))"

fun pollJobs ::
  "(string \<Rightarrow> JobStatus reply) \<Rightarrow> (string \<times> JobStatus) list \<Rightarrow> dashboard \<Rightarrow> dashboard \<times> request list" where
  "pollJobs answers [] s = (s, [])"
| "pollJobs answers (entry # rest) s =
     (let (s1, rq1) = pollJob answers entry s;
          (s2, rq2) = pollJobs answers rest s1
      in (s2, rq1 @ rq2))"

definition analysisPollTick :: "(string \<Rightarrow> JobStatus reply) \<Rightarrow> dashboard \<Rightarrow> dashboard \<times> request list" where
  "analysisPollTick answers s = pollJobs answers (jobsToPoll s) s"

text \<open>
  The callback of the timer number \<open>k\<close> that \<^verbatim>\<open>handleRunAnalysis\<close> created: query the job,
  store the answer under the type, and clear the timer when the answer is completed or
  failed, or when the query is rejected. A cleared timer does not fire.
\<close>

definition clearInterval :: "nat \<Rightarrow> dashboard \<Rightarrow> dashboard" where
  "clearInterval k s =
     s\<lparr>pollIntervals := (pollIntervals s)[k := (pollIntervals s ! k)\<lparr>poll_active := False\<rparr>]\<rparr>"

definition runPollTick :: "nat \<Rightarrow> JobStatus reply \<Rightarrow> dashboard \<Rightarrow> dashboard \<times> request list" where
  "runPollTick k answer s =
     (if k < length (pollIntervals s) \<and> poll_active (pollIntervals s ! k) then
        (let p = pollIntervals s ! k in
         case answer of
           Inr jobStatus \<Rightarrow>
             (let s1 = s\<lparr>analysisJobs :=
                          AList.update (type_name (poll_type p)) jobStatus (analysisJobs s)\<rparr>
              in (if status jobStatus = ''completed'' \<or> status jobStatus = ''failed''
                  then clearInterval k s1 else s1,
                  [GetJobStatus (poll_jobId p)]))
         | Inl err \<Rightarrow> (clearInterval k s, [GetJobStatus (poll_jobId p)]))
      else (s, []))"

subsection \<open>Runs of the Dashboard\<close>

datatype event =
    FetchGenomesClicked "FetchGenomesResponse reply"
  | RunAnalysisClicked analysis_type "phastest_probe reply" "AnalysisResponse reply" string
  | PhastestFallbackClicked "string option"
  | FetchPollFired "JobStatus reply"
  | AnalysisPollFired "string \<Rightarrow> JobStatus reply"
  | RunPollFired nat "JobStatus reply"

fun step :: "dashboard \<Rightarrow> event \<Rightarrow> dashboard \<times> request list" where
  "step s (FetchGenomesClicked submitted) = handleFetchGenomes submitted s"
| "step s (RunAnalysisClicked type probe submitted now) = handleRunAnalysis type probe submitted now s"
| "step s (PhastestFallbackClicked env) = handlePhastestFallback env s"
| "step s (FetchPollFired answer) = fetchPollTick answer s"
| "step s (AnalysisPollFired answers) = analysisPollTick answers s"
| "step s (RunPollFired k answer) = runPollTick k answer s"

text \<open>The requests each event of a run issued.\<close>

fun issued :: "dashboard \<Rightarrow> event list \<Rightarrow> request list list" where
  "issued s [] = []"
| "issued s (e # es) = snd (step s e) # issued (fst (step s e)) es"

subsection \<open>Timed runs of the Dashboard\<close>

text \<open>
  In the runs above a tick of a timer and the answer to its query are one step. The code
  awaits the answer: the callback sends the query and is resumed when the answer arrives,
  other callbacks and ticks running in between; and the timers fire at their own times.
  The client below has a clock in milliseconds, the time at which each timer fires next,
  and the callbacks that await an answer.

  \<^item> The first effect depends on \<^verbatim>\<open>fetchJobId\<close>: when that changes, its timer is cleared and
    a new one with period 2000 is started, after the two listing requests of the effect.
  \<^item> The second effect depends on \<^verbatim>\<open>analysisJobs\<close>. Every \<^verbatim>\<open>setAnalysisJobs\<close> of the code
    builds a new object, so every one of them clears the timer of the effect and starts a
    new one with period 3000.
  \<^item> \<^verbatim>\<open>handleRunAnalysis\<close> starts a timer with period 2000 when its submission is accepted.

  A submission and its answer are still one step, taken when the answer arrives: the
  handlers read no state after their \<^verbatim>\<open>await\<close>.
\<close>

datatype source = FetchPoller | AnalysisJobsPoller | RunPoller nat | Other

text \<open>
  A callback that awaits the answer to its status query: the callback of the first effect;
  the callback of timer \<open>k\<close> of \<^verbatim>\<open>handleRunAnalysis\<close>, which closes over the analysis type;
  the loop of the second effect, awaiting the answer for the entry under \<open>type\<close>, with the
  entries it has still to query.
\<close>

datatype continuation =
    FetchAnswer
  | RunAnswer nat analysis_type
  | AnalysisAnswer string "(string \<times> JobStatus) list"

record client =
  page :: dashboard
  time :: nat
  fetchDue :: nat
  analysisDue :: nat
  runDue :: "nat \<Rightarrow> nat"
  awaiting :: "continuation list"

text \<open>The component when it has been mounted: both effects have started their timers.\<close>

definition mounted :: client where
  "mounted = \<lparr>page = initial, time = 0, fetchDue = 2000, analysisDue = 3000,
     runDue = (\<lambda>k. 0), awaiting = []\<rparr>"

text \<open>What each callback does with the answer, after its \<^verbatim>\<open>await\<close>.\<close>

definition fetchPollAnswer :: "JobStatus reply \<Rightarrow> dashboard \<Rightarrow> dashboard" where
  "fetchPollAnswer answer s =
     (case answer of
        Inl err \<Rightarrow> s
      | Inr st \<Rightarrow>
          (let s1 = s\<lparr>fetchStatus := Some st\<rparr> in
           if status st = ''completed'' \<and> result_genomes st \<noteq> None then
             s1\<lparr>genomeUrls := the (result_genomes st), fetchJobId := None\<rparr>
           else if status st = ''failed'' then
             s1\<lparr>dashboard_error := Some (js_or (error st) ''Failed to fetch genomes''),
                fetchJobId := None\<rparr>
           else s1))"

definition runPollAnswer :: "nat \<Rightarrow> analysis_type \<Rightarrow> JobStatus reply \<Rightarrow> dashboard \<Rightarrow> dashboard" where
  "runPollAnswer k type answer s =
     (case answer of
        Inr jobStatus \<Rightarrow>
          (let s1 = s\<lparr>analysisJobs := AList.update (type_name type) jobStatus (analysisJobs s)\<rparr>
           in if status jobStatus = ''completed'' \<or> status jobStatus = ''failed''
              then clearInterval k s1 else s1)
      | Inl err \<Rightarrow> clearInterval k s)"

definition pollJobAnswer :: "string \<Rightarrow> JobStatus reply \<Rightarrow> dashboard \<Rightarrow> dashboard \<times> request list" where
  "pollJobAnswer type answer s =
     (case answer of
        Inr st \<Rightarrow>
          (s\<lparr>analysisJobs := AList.update type st (analysisJobs s)\<rparr>,
           if type = ''phastest'' \<and> status st = ''completed'' then [GetPhastestZipFiles] else [])
      | Inl err \<Rightarrow> (s, []))"

text \<open>
  The first effect is set up again when \<^verbatim>\<open>fetchJobId\<close> is not what it was (\<open>before\<close>); the
  second effect is set up again by every answer that is stored in \<^verbatim>\<open>analysisJobs\<close>.
\<close>

definition fetchEffect :: "string option \<Rightarrow> client \<Rightarrow> client \<times> (source \<times> request) list" where
  "fetchEffect before s =
     (if fetchJobId (page s) \<noteq> before then
        (s\<lparr>fetchDue := time s + 2000\<rparr>, [(Other, GetPhastestZipFiles), (Other, GetTempFastaZipFiles)])
      else (s, []))"

definition analysisEffect :: "JobStatus reply \<Rightarrow> client \<Rightarrow> client" where
  "analysisEffect answer s =
     (case answer of Inr st \<Rightarrow> s\<lparr>analysisDue := time s + 3000\<rparr> | Inl err \<Rightarrow> s)"

text \<open>The loop of the second effect goes on to its next entry, if there is one.\<close>

definition pollNext :: "(string \<times> JobStatus) list \<Rightarrow> client \<Rightarrow> client \<times> (source \<times> request) list" where
  "pollNext entries s =
     (case entries of
        [] \<Rightarrow> (s, [])
      | (type, job) # rest \<Rightarrow>
          (s\<lparr>awaiting := awaiting s @ [AnalysisAnswer type rest]\<rparr>,
           [(AnalysisJobsPoller, GetJobStatus (job_id job))]))"

fun resume :: "continuation \<Rightarrow> JobStatus reply \<Rightarrow> client \<Rightarrow> client \<times> (source \<times> request) list" where
  "resume FetchAnswer answer s =
     fetchEffect (fetchJobId (page s)) (s\<lparr>page := fetchPollAnswer answer (page s)\<rparr>)"
| "resume (RunAnswer k type) answer s =
     (analysisEffect answer (s\<lparr>page := runPollAnswer k type answer (page s)\<rparr>), [])"
| "resume (AnalysisAnswer type rest) answer s =
     (let stored = pollJobAnswer type answer (page s);
          continued = pollNext rest (analysisEffect answer (s\<lparr>page := fst stored\<rparr>))
      in (fst continued, map (Pair Other) (snd stored) @ snd continued))"

text \<open>
  The times at which the timers that exist fire next. Time passes only up to the earliest
  of them: a timer fires when it is due.
\<close>

definition liveTimers :: "dashboard \<Rightarrow> nat list" where
  "liveTimers d = filter (\<lambda>k. poll_active (pollIntervals d ! k)) [0..<length (pollIntervals d)]"

definition dues :: "client \<Rightarrow> nat list" where
  "dues s = fetchDue s # analysisDue s # map (runDue s) (liveTimers (page s))"

text \<open>
  The events of a timed run: time passes; one of the timers fires; the answer to the query
  of the callback number \<open>i\<close> among those awaiting arrives; a handler runs. An event that
  cannot happen in a state has no successor.
\<close>

datatype tevent =
    Wait nat
  | FetchTick
  | AnalysisTick
  | RunTick nat
  | Answered nat "JobStatus reply"
  | Fetch "FetchGenomesResponse reply"
  | Run analysis_type "phastest_probe reply" "AnalysisResponse reply" string
  | Fallback "string option"

fun tstep :: "client \<Rightarrow> tevent \<Rightarrow> (client \<times> (source \<times> request) list) option" where
  "tstep s (Wait d) =
     (if list_all (\<lambda>due. time s + d \<le> due) (dues s) then Some (s\<lparr>time := time s + d\<rparr>, [])
      else None)"
| "tstep s FetchTick =
     (if fetchDue s = time s then
        (let s1 = s\<lparr>fetchDue := fetchDue s + 2000\<rparr> in
         case fetchJobId (page s) of
           None \<Rightarrow> Some (s1, [])
         | Some jobId \<Rightarrow>
             if jobId = [] then Some (s1, [])
             else Some (s1\<lparr>awaiting := awaiting s @ [FetchAnswer]\<rparr>,
                        [(FetchPoller, GetJobStatus jobId)]))
      else None)"
| "tstep s AnalysisTick =
     (if analysisDue s = time s then
        Some (pollNext (jobsToPoll (page s)) (s\<lparr>analysisDue := analysisDue s + 3000\<rparr>))
      else None)"
| "tstep s (RunTick k) =
     (if k < length (pollIntervals (page s)) \<and> poll_active (pollIntervals (page s) ! k)
         \<and> runDue s k = time s then
        Some (s\<lparr>runDue := (runDue s)(k := runDue s k + 2000),
                awaiting := awaiting s @ [RunAnswer k (poll_type (pollIntervals (page s) ! k))]\<rparr>,
              [(RunPoller k, GetJobStatus (poll_jobId (pollIntervals (page s) ! k)))])
      else None)"
| "tstep s (Answered i answer) =
     (if i < length (awaiting s) then
        Some (resume (awaiting s ! i) answer
                (s\<lparr>awaiting := take i (awaiting s) @ drop (Suc i) (awaiting s)\<rparr>))
      else None)"
| "tstep s (Fetch submitted) =
     (let handled = handleFetchGenomes submitted (page s);
          started = fetchEffect (fetchJobId (page s)) (s\<lparr>page := fst handled\<rparr>)
      in Some (fst started, map (Pair Other) (snd handled) @ snd started))"
| "tstep s (Run type probe submitted now) =
     (let handled = handleRunAnalysis type probe submitted now (page s);
          s1 = s\<lparr>page := fst handled\<rparr>
      in Some (if length (pollIntervals (fst handled)) = length (pollIntervals (page s)) then s1
               else s1\<lparr>runDue := (runDue s)(length (pollIntervals (page s)) := time s + 2000),
                       analysisDue := time s + 3000\<rparr>,
               map (Pair Other) (snd handled)))"
| "tstep s (Fallback env) =
     (let handled = handlePhastestFallback env (page s)
      in Some (s\<lparr>page := fst handled\<rparr>, map (Pair Other) (snd handled)))"

text \<open>
  A run, with the requests it sent: each with the time at which it was sent and with its
  sender. \<open>sent_by\<close> picks the requests of one sender.
\<close>

fun trun :: "client \<Rightarrow> tevent list \<Rightarrow> (client \<times> (nat \<times> source \<times> request) list) option" where
  "trun s [] = Some (s, [])"
| "trun s (e # es) =
     (case tstep s e of
        None \<Rightarrow> None
      | Some (s1, out) \<Rightarrow>
          (case trun s1 es of
             None \<Rightarrow> None
           | Some (s2, log) \<Rightarrow> Some (s2, map (Pair (time s1)) out @ log)))"







section \<open>The file names of the specification\<close>

text \<open>
  The table of the specification, in its words: ResFinder gives
  \<^verbatim>\<open>resfinder_results.csv\<close>, VFDB gives \<^verbatim>\<open>vfdb_results.xlsx\<close>, the PHASTEST CSV gives
  \<^verbatim>\<open>phastest_results.csv\<close> and the PHASTEST bundle gives
  \<^verbatim>\<open>phastest_results_{job_id}.zip\<close>. The first argument is the job type, the second the
  file type requested from the download endpoint; a PHASTEST job has two file types.
\<close>

definition spec_filename :: "string \<Rightarrow> string \<Rightarrow> string \<Rightarrow> string option" where
  "spec_filename jobType fileType jobId =
     (if jobType = ''resfinder'' then Some ''resfinder_results.csv''
      else if jobType = ''vfdb'' then Some ''vfdb_results.xlsx''
      else if jobType = ''phastest'' \<and> fileType = ''phastest_csv'' then Some ''phastest_results.csv''
      else if jobType = ''phastest'' \<and> fileType = ''phastest_zip''
        then Some (''phastest_results_'' @ jobId @ ''.zip'')
      else None)"

section \<open>Example data\<close>

definition job :: "string \<Rightarrow> string \<Rightarrow> string \<Rightarrow> JobStatus" where
  "job jobId type st =
     \<lparr>job_id = jobId, job_type = type, status = st, progress = 0, result = None, error = None,
      created_at = ''2025-01-01T00:00:00.000Z'', completed_at = None\<rparr>"

text \<open>The Jobs page and the Results page listing completed ResFinder jobs with the given identifiers.\<close>

definition listed :: "string list \<Rightarrow> jobs_page" where
  "listed ids = \<lparr>jobs = map (\<lambda>jobId. job jobId ''resfinder'' ''completed'') ids,
     jobs_loading = False, jobs_error = None, actionLoading = None\<rparr>"

definition shown :: "string list \<Rightarrow> results_page" where
  "shown ids = \<lparr>results_jobs = map (\<lambda>jobId. job jobId ''resfinder'' ''completed'') ids,
     results_loading = False, results_error = None\<rparr>"

definition clock :: string where
  "clock = ''2025-01-01T00:00:00.000Z''"

definition accepted :: "string \<Rightarrow> AnalysisResponse reply" where
  "accepted jobId =
     Inr \<lparr>response_job_id = jobId, response_message = ''started'', response_status = ''pending''\<rparr>"

definition available :: "phastest_probe reply" where
  "available = Inr \<lparr>probe_status = ''available'', probe_status_code = Some 200, probe_error = None\<rparr>"

definition notFound :: api_error where
  "notFound = ApiError (Some ''Job not found'') ''Request failed with status code 404''"

text \<open>A server that gives the same answer to the status query of every job.\<close>

definition always :: "JobStatus reply \<Rightarrow> string \<Rightarrow> JobStatus reply" where
  "always answer jobId = answer"

text \<open>
  The component after a ResFinder run was accepted as job \<^verbatim>\<open>j1\<close> at time 0; after a fetch
  for \<^verbatim>\<open>PRJNA1\<close> was accepted as job \<^verbatim>\<open>f1\<close> at time 0; and at time 3000 of the first, when
  the first query of the timer was rejected and the second effect has then observed the job
  completed.
\<close>

definition started :: client where
  "started =
     (case trun mounted [Run resfinder available (accepted ''j1'') clock] of
        Some (s, log) \<Rightarrow> s | None \<Rightarrow> mounted)"








section \<open>Properties\<close>

subsection \<open>Summary counters of the Jobs page\<close>

lemma count_list_filter: "count_list (filter P xs) x = (if P x then count_list xs x else 0)"
  by (induction xs) auto

lemma counters_sum:
  "length (runningJobs js) + length (completedJobs js) + length (failedJobs js)
     + length (filter (\<lambda>job. status job \<notin> set [''pending'', ''running'', ''completed'', ''failed'']) js)
   = length js"
  unfolding runningJobs_def completedJobs_def failedJobs_def
  by (induction js) auto

text \<open>
  C10. For every loaded job list the three summary counters count exactly the jobs whose
  status is pending or running, the jobs whose status is completed, and the jobs whose
  status is failed. A job in any other status (paused, for one) is in none of the three
  lists, so the counters add up to the number of jobs exactly when every job has one of
  those four statuses.
\<close>

theorem summary_counters:
  "count_list (runningJobs js) j
     = (if status j = ''pending'' \<or> status j = ''running'' then count_list js j else 0)
   \<and> count_list (completedJobs js) j = (if status j = ''completed'' then count_list js j else 0)
   \<and> count_list (failedJobs js) j = (if status j = ''failed'' then count_list js j else 0)
   \<and> (status j \<notin> {''pending'', ''running'', ''completed'', ''failed''} \<longrightarrow>
        j \<notin> set (runningJobs js) \<and> j \<notin> set (completedJobs js) \<and> j \<notin> set (failedJobs js))
   \<and> (length (runningJobs js) + length (completedJobs js) + length (failedJobs js) = length js
        \<longleftrightarrow> (\<forall>x \<in> set js. status x \<in> {''pending'', ''running'', ''completed'', ''failed''}))"
proof -
  let ?other = "\<lambda>job. status job \<notin> set [''pending'', ''running'', ''completed'', ''failed'']"
  have "length (runningJobs js) + length (completedJobs js) + length (failedJobs js) = length js
        \<longleftrightarrow> length (filter ?other js) = 0"
    using counters_sum [of js] by linarith
  also have "\<dots> \<longleftrightarrow> (\<forall>x \<in> set js. status x \<in> {''pending'', ''running'', ''completed'', ''failed''})"
    by (auto simp: filter_empty_conv)
  finally have total:
    "length (runningJobs js) + length (completedJobs js) + length (failedJobs js) = length js
       \<longleftrightarrow> (\<forall>x \<in> set js. status x \<in> {''pending'', ''running'', ''completed'', ''failed''})" .
  have each:
    "count_list (runningJobs js) j
       = (if status j = ''pending'' \<or> status j = ''running'' then count_list js j else 0)"
    "count_list (completedJobs js) j = (if status j = ''completed'' then count_list js j else 0)"
    "count_list (failedJobs js) j = (if status j = ''failed'' then count_list js j else 0)"
    by (simp_all add: runningJobs_def completedJobs_def failedJobs_def count_list_filter)
  have none: "status j \<notin> {''pending'', ''running'', ''completed'', ''failed''} \<longrightarrow>
        j \<notin> set (runningJobs js) \<and> j \<notin> set (completedJobs js) \<and> j \<notin> set (failedJobs js)"
    by (auto simp: runningJobs_def completedJobs_def failedJobs_def)
  from each none total show ?thesis by blast
qed

theorem summary_counters_witness:
  "length (runningJobs [job ''a'' ''vfdb'' ''pending'', job ''b'' ''vfdb'' ''paused'',
                        job ''c'' ''vfdb'' ''failed''])
   + length (completedJobs [job ''a'' ''vfdb'' ''pending'', job ''b'' ''vfdb'' ''paused'',
                            job ''c'' ''vfdb'' ''failed''])
   + length (failedJobs [job ''a'' ''vfdb'' ''pending'', job ''b'' ''vfdb'' ''paused'',
                         job ''c'' ''vfdb'' ''failed''])
   \<noteq> length [job ''a'' ''vfdb'' ''pending'', job ''b'' ''vfdb'' ''paused'',
              job ''c'' ''vfdb'' ''failed'']
   \<and> job ''b'' ''vfdb'' ''paused''
       \<notin> set (runningJobs [job ''a'' ''vfdb'' ''pending'', job ''b'' ''vfdb'' ''paused'',
                            job ''c'' ''vfdb'' ''failed''])"
  using summary_counters
    [of "[job ''a'' ''vfdb'' ''pending'', job ''b'' ''vfdb'' ''paused'',
          job ''c'' ''vfdb'' ''failed'']"
        "job ''b'' ''vfdb'' ''paused''"]
  by (simp add: job_def)

subsection \<open>Deleting a job\<close>

text \<open>
  When nothing has written the list between the click and the answer, a deletion that
  succeeds leaves no entry with the identifier given and keeps the other entries, in their
  order; a rejected cleanup leaves the list.
\<close>

lemma delete_job_same_render:
  "(\<forall>j \<in> set (jobs (fst (Jobs_handleDeleteJob jobId (Inr ()) (jobs s) s))). job_id j \<noteq> jobId)
   \<and> filter (\<lambda>j. job_id j \<noteq> jobId) (jobs (fst (Jobs_handleDeleteJob jobId (Inr ()) (jobs s) s)))
       = filter (\<lambda>j. job_id j \<noteq> jobId) (jobs s)
   \<and> (\<forall>j \<in> set (results_jobs (fst (Results_handleDeleteJob jobId (Inr ()) (results_jobs r) r))).
         job_id j \<noteq> jobId)
   \<and> filter (\<lambda>j. job_id j \<noteq> jobId)
         (results_jobs (fst (Results_handleDeleteJob jobId (Inr ()) (results_jobs r) r)))
       = filter (\<lambda>j. job_id j \<noteq> jobId) (results_jobs r)
   \<and> jobs (fst (Jobs_handleDeleteJob jobId (Inl e) captured s)) = jobs s
   \<and> results_jobs (fst (Results_handleDeleteJob jobId (Inl e) captured' r)) = results_jobs r"
  by (simp add: Jobs_handleDeleteJob_def Results_handleDeleteJob_def)

text \<open>In general the list after a deletion that succeeds is the captured list, filtered.\<close>

lemma delete_job_writes_captured:
  "jobs (fst (Jobs_handleDeleteJob jobId (Inr ()) captured s))
     = filter (\<lambda>j. job_id j \<noteq> jobId) captured"
  "results_jobs (fst (Results_handleDeleteJob jobId (Inr ()) captured r))
     = filter (\<lambda>j. job_id j \<noteq> jobId) captured"
  by (simp_all add: Jobs_handleDeleteJob_def Results_handleDeleteJob_def)

text \<open>
  C9. Deleting a job removes the entries with its identifier from the page's list and
  keeps every other entry. The handler does so only against the list of the render in
  which the button was clicked. In the first run the Jobs page shows \<^verbatim>\<open>a\<close> and \<^verbatim>\<open>b\<close>, the
  deletion of \<^verbatim>\<open>a\<close> is clicked, the periodic reload brings \<^verbatim>\<open>a\<close>, \<^verbatim>\<open>b\<close> and a new job
  \<^verbatim>\<open>c\<close>, and then the cleanup is answered: the list becomes \<^verbatim>\<open>b\<close> alone, and \<^verbatim>\<open>c\<close> is
  lost. In the second run the deletions of \<^verbatim>\<open>a\<close> and of \<^verbatim>\<open>b\<close> are clicked in the same
  render and answered one after the other: the list ends as \<^verbatim>\<open>a\<close>, the job deleted first.
  The third and fourth runs are the same on the Results page, with its Refresh button.
\<close>

theorem delete_job_stale_list:
  "jobs (fst (Jobs_handleDeleteJob ''a'' (Inr ()) (jobs (listed [''a'', ''b'']))
           (fst (Jobs_loadJobs (Inr (jobs (listed [''a'', ''b'', ''c'']))) (listed [''a'', ''b''])))))
     = jobs (listed [''b''])
   \<and> jobs (fst (Jobs_handleDeleteJob ''b'' (Inr ()) (jobs (listed [''a'', ''b'']))
           (fst (Jobs_handleDeleteJob ''a'' (Inr ()) (jobs (listed [''a'', ''b'']))
                  (listed [''a'', ''b''])))))
     = jobs (listed [''a''])
   \<and> results_jobs (fst (Results_handleDeleteJob ''a'' (Inr ()) (results_jobs (shown [''a'', ''b'']))
           (fst (Results_loadJobs (Inr (results_jobs (shown [''a'', ''b'', ''c''])))
                  (shown [''a'', ''b''])))))
     = results_jobs (shown [''b''])
   \<and> results_jobs (fst (Results_handleDeleteJob ''b'' (Inr ()) (results_jobs (shown [''a'', ''b'']))
           (fst (Results_handleDeleteJob ''a'' (Inr ()) (results_jobs (shown [''a'', ''b'']))
                  (shown [''a'', ''b''])))))
     = results_jobs (shown [''a''])"
  by (simp add: Jobs_handleDeleteJob_def Results_handleDeleteJob_def Jobs_loadJobs_def
        Results_loadJobs_def listed_def shown_def job_def)

subsection \<open>File names of downloads\<close>

lemma download_names:
  "Jobs_download_filename jobId ''resfinder_csv'' = ''resfinder_results.csv''"
  "Jobs_download_filename jobId ''vfdb_csv'' = ''vfdb_results.xlsx''"
  "Jobs_download_filename jobId ''phastest_csv'' = ''phastest_results.csv''"
  "Jobs_download_filename jobId ''phastest_zip'' = ''phastest_results_'' @ jobId @ ''.zip''"
  "Results_download_filename jobId ''resfinder_csv'' = ''resfinder_results.csv''"
  "Results_download_filename jobId ''vfdb_csv'' = ''vfdb_results.xlsx''"
  "Results_download_filename jobId ''phastest_csv'' = ''phastest_results.csv''"
  "Results_download_filename jobId ''phastest_zip'' = ''phastest_results_'' @ jobId @ ''.zip''"
  by (simp_all add: Jobs_download_filename_def Results_download_filename_def)

lemma Jobs_offered:
  assumes "(Download jobId fileType, d) \<in> set (Jobs_actions marked j)"
  shows "jobId = job_id j \<and> status j = ''completed''
     \<and> spec_filename (job_type j) fileType jobId = Some (Jobs_download_filename jobId fileType)"
  using assms
  by (auto simp: Jobs_actions_def isAnalysisJob_def spec_filename_def download_names Let_def
      split: if_splits)

lemma Results_offered:
  assumes "Download jobId fileType \<in> set (Results_actions j)"
  shows "jobId = job_id j
     \<and> spec_filename (job_type j) fileType jobId = Some (Results_download_filename jobId fileType)"
  using assms
  by (auto simp: Results_actions_def isAnalysisJob_def spec_filename_def download_names
      split: if_splits)

lemma manual_named:
  "spec_filename (type_name t) (manual_download_fileType (type_name t)) jobId
     = Some (manual_download_filename (type_name t))"
  by (cases t) (simp_all add: spec_filename_def manual_download_fileType_def manual_download_filename_def)

text \<open>
  C6. The name under which a downloaded artifact is saved is the one the table of the
  specification gives for the job type and the file type: for every download button the
  Jobs page or the Results page offers for a job, for the download button of the Dashboard
  (whose keys are the three analysis types) and for its PHASTEST bundle button, a download
  that succeeds saves the blob under that name.
\<close>

theorem download_filenames:
  "((Download jobId fileType, d) \<in> set (Jobs_actions marked j) \<longrightarrow>
      (\<exists>name. spec_filename (job_type j) fileType (job_id j) = Some name
         \<and> snd (Jobs_handleDownload jobId fileType (Inr ()) s)
             = [GetDownload (job_id j) fileType, SaveBlob name]))
   \<and> (Download jobId fileType \<in> set (Results_actions j) \<longrightarrow>
      (\<exists>name. spec_filename (job_type j) fileType (job_id j) = Some name
         \<and> snd (Results_handleDownload jobId fileType (Inr ()) r)
             = [GetDownload (job_id j) fileType, SaveBlob name]))
   \<and> (\<exists>name. spec_filename (type_name t) (manual_download_fileType (type_name t)) jobId = Some name
         \<and> snd (handleManualDownload (type_name t) jobId (Inr ()) b)
             = [GetDownload jobId (manual_download_fileType (type_name t)), SaveBlob name])
   \<and> (find (\<lambda>job. job_type job = ''phastest'' \<and> status job = ''completed'')
          (map snd (analysisJobs b)) = Some p \<longrightarrow>
      (\<exists>name. spec_filename (job_type p) ''phastest_zip'' (job_id p) = Some name
         \<and> snd (handleDownloadPhastestZip (Inr ()) b)
             = [GetDownload (job_id p) ''phastest_zip'', SaveBlob name]))"
proof (intro conjI impI)
  assume "(Download jobId fileType, d) \<in> set (Jobs_actions marked j)"
  from Jobs_offered [OF this]
  show "\<exists>name. spec_filename (job_type j) fileType (job_id j) = Some name
         \<and> snd (Jobs_handleDownload jobId fileType (Inr ()) s)
             = [GetDownload (job_id j) fileType, SaveBlob name]"
    by (auto simp: Jobs_handleDownload_def)
next
  assume "Download jobId fileType \<in> set (Results_actions j)"
  from Results_offered [OF this]
  show "\<exists>name. spec_filename (job_type j) fileType (job_id j) = Some name
         \<and> snd (Results_handleDownload jobId fileType (Inr ()) r)
             = [GetDownload (job_id j) fileType, SaveBlob name]"
    by (auto simp: Results_handleDownload_def)
next
  show "\<exists>name. spec_filename (type_name t) (manual_download_fileType (type_name t)) jobId = Some name
         \<and> snd (handleManualDownload (type_name t) jobId (Inr ()) b)
             = [GetDownload jobId (manual_download_fileType (type_name t)), SaveBlob name]"
    by (simp add: manual_named handleManualDownload_def)
next
  assume found: "find (\<lambda>job. job_type job = ''phastest'' \<and> status job = ''completed'')
          (map snd (analysisJobs b)) = Some p"
  then have "job_type p = ''phastest''"
    by (auto simp: find_Some_iff)
  with found show "\<exists>name. spec_filename (job_type p) ''phastest_zip'' (job_id p) = Some name
         \<and> snd (handleDownloadPhastestZip (Inr ()) b)
             = [GetDownload (job_id p) ''phastest_zip'', SaveBlob name]"
    by (simp add: handleDownloadPhastestZip_def spec_filename_def)
qed

theorem download_filenames_witness:
  "snd (Jobs_handleDownload ''j7'' ''phastest_zip'' (Inr ())
         \<lparr>jobs = [job ''j7'' ''phastest'' ''completed''], jobs_loading = False,
          jobs_error = None, actionLoading = None\<rparr>)
     = [GetDownload ''j7'' ''phastest_zip'', SaveBlob ''phastest_results_j7.zip'']
   \<and> snd (Results_handleDownload ''j7'' ''phastest_zip'' (Inr ())
         \<lparr>results_jobs = [job ''j7'' ''phastest'' ''completed''], results_loading = False,
          results_error = None\<rparr>)
     = [GetDownload ''j7'' ''phastest_zip'', SaveBlob ''phastest_results_j7.zip'']
   \<and> snd (handleManualDownload ''resfinder'' ''j7'' (Inr ()) initial)
     = [GetDownload ''j7'' ''resfinder_csv'', SaveBlob ''resfinder_results.csv'']
   \<and> snd (handleDownloadPhastestZip (Inr ())
         (initial\<lparr>analysisJobs := [(''phastest'', job ''j7'' ''phastest'' ''completed'')]\<rparr>))
     = [GetDownload ''j7'' ''phastest_zip'', SaveBlob ''phastest_results_j7.zip'']"
  using download_filenames
    [where jobId = "''j7''" and fileType = "''phastest_zip''" and d = False and marked = None
       and j = "job ''j7'' ''phastest'' ''completed''"
       and s = "\<lparr>jobs = [job ''j7'' ''phastest'' ''completed''], jobs_loading = False,
          jobs_error = None, actionLoading = None\<rparr>"
       and r = "\<lparr>results_jobs = [job ''j7'' ''phastest'' ''completed''], results_loading = False,
          results_error = None\<rparr>"
       and t = resfinder
       and b = "initial\<lparr>analysisJobs := [(''phastest'', job ''j7'' ''phastest'' ''completed'')]\<rparr>"
       and p = "job ''j7'' ''phastest'' ''completed''"]
  by (simp add: job_def Jobs_actions_def isAnalysisJob_def Jobs_handleDownload_def
        Results_handleDownload_def handleManualDownload_def handleDownloadPhastestZip_def
        Jobs_download_filename_def Results_download_filename_def manual_download_fileType_def
        manual_download_filename_def initial_def spec_filename_def)

subsection \<open>The declared statuses\<close>

text \<open>
  C2, as stated, asks for five statuses at the client interface, paused among them. The
  type that \<^verbatim>\<open>JobStatus\<close> declares has no such member.
\<close>

theorem paused_not_declared:
  "''paused'' \<notin> set JobStatus_status
   \<and> set JobStatus_status \<noteq> {''pending'', ''running'', ''paused'', ''completed'', ''failed''}"
proof -
  have a: "''paused'' \<notin> set JobStatus_status"
    by (simp add: JobStatus_status_def)
  then show ?thesis by blast
qed

text \<open>
  C2 (amended). The status of a job, as the client interface \<^verbatim>\<open>JobStatus\<close> declares it,
  is one of exactly the four values pending, running, completed and failed. At run time
  the Jobs page still compares the status it received with \<^verbatim>\<open>'paused'\<close>: a paused
  analysis job gets the Resume button (and the Delete button, and no other).
\<close>

theorem declared_statuses:
  "distinct JobStatus_status
   \<and> (st \<in> set JobStatus_status
        \<longleftrightarrow> st = ''pending'' \<or> st = ''running'' \<or> st = ''completed'' \<or> st = ''failed'')
   \<and> (isAnalysisJob j \<and> status j = ''paused'' \<longrightarrow>
        map fst (Jobs_actions marked j) = [ResumeJob (job_id j), DeleteJob (job_id j)])"
  by (simp add: JobStatus_status_def Jobs_actions_def)

theorem declared_statuses_witness:
  "map fst (Jobs_actions None (job ''j1'' ''vfdb'' ''paused'')) = [ResumeJob ''j1'', DeleteJob ''j1'']
   \<and> ''paused'' \<notin> set JobStatus_status"
  using declared_statuses [of "''paused''" "job ''j1'' ''vfdb'' ''paused''" None]
  by (simp add: job_def isAnalysisJob_def)

subsection \<open>Stop and resume\<close>

lemma handleStopJob_eq:
  "handleStopJob jobId listing s
     = (fst (Jobs_loadJobs listing s)\<lparr>actionLoading := None\<rparr>, [GetJobs])"
  by (cases listing) (simp_all add: handleStopJob_def stopJob_def Jobs_loadJobs_def)

lemma handleResumeJob_eq:
  "handleResumeJob jobId listing s
     = (fst (Jobs_loadJobs listing s)\<lparr>actionLoading := None\<rparr>, [GetJobs])"
  by (cases listing) (simp_all add: handleResumeJob_def resumeJob_def Jobs_loadJobs_def)

lemma stop_offered:
  "(\<exists>d. (StopJob jobId, d) \<in> set (Jobs_actions marked j))
        \<longleftrightarrow> jobId = job_id j \<and> isAnalysisJob j \<and> status j = ''running''"
  by (auto simp: Jobs_actions_def Let_def split: if_splits)

lemma resume_offered:
  "(\<exists>d. (ResumeJob jobId, d) \<in> set (Jobs_actions marked j))
        \<longleftrightarrow> jobId = job_id j \<and> isAnalysisJob j \<and> status j = ''paused''"
  by (auto simp: Jobs_actions_def Let_def split: if_splits)

text \<open>
  C5, as stated, makes a stop or resume request on a completed job fail, and a stop request
  on a running job ask for the transition to paused. The service call resolves; the
  handler on a completed job ends without an error message; on a running job it sends
  nothing but the reload of the list, after which the job is what the server lists.
\<close>

theorem stop_resume_counterexample:
  "snd (stopJob ''job-1'') = Inr ()
   \<and> handleStopJob ''job-1'' (Inr [job ''job-1'' ''resfinder'' ''completed''])
        \<lparr>jobs = [job ''job-1'' ''resfinder'' ''completed''], jobs_loading = False,
         jobs_error = None, actionLoading = None\<rparr>
      = (\<lparr>jobs = [job ''job-1'' ''resfinder'' ''completed''], jobs_loading = False,
          jobs_error = None, actionLoading = None\<rparr>, [GetJobs])
   \<and> handleStopJob ''job-2'' (Inr [job ''job-2'' ''vfdb'' ''running''])
        \<lparr>jobs = [job ''job-2'' ''vfdb'' ''running''], jobs_loading = False,
         jobs_error = None, actionLoading = None\<rparr>
      = (\<lparr>jobs = [job ''job-2'' ''vfdb'' ''running''], jobs_loading = False,
          jobs_error = None, actionLoading = None\<rparr>, [GetJobs])
   \<and> handleResumeJob ''job-1'' (Inr [job ''job-1'' ''resfinder'' ''completed''])
        \<lparr>jobs = [job ''job-1'' ''resfinder'' ''completed''], jobs_loading = False,
         jobs_error = None, actionLoading = None\<rparr>
      = (\<lparr>jobs = [job ''job-1'' ''resfinder'' ''completed''], jobs_loading = False,
          jobs_error = None, actionLoading = None\<rparr>, [GetJobs])"
  by (simp add: stopJob_def handleStopJob_eq handleResumeJob_eq Jobs_loadJobs_def)

text \<open>
  C5 (amended). \<^verbatim>\<open>stopJob\<close> and \<^verbatim>\<open>resumeJob\<close> are placeholders: whatever the job, they
  send no request and do not fail. \<^verbatim>\<open>handleStopJob\<close> and \<^verbatim>\<open>handleResumeJob\<close> therefore
  only reload the job list and clear the action mark: the list becomes the server's listing,
  or a rejected listing sets the error message of the reload. The Jobs page offers Stop
  exactly for running analysis jobs and Resume exactly for paused analysis jobs.
\<close>

theorem stop_resume_placeholders:
  "stopJob jobId = ([], Inr ()) \<and> resumeJob jobId = ([], Inr ())
   \<and> snd (handleStopJob jobId listing s) = [GetJobs]
   \<and> snd (handleResumeJob jobId listing s) = [GetJobs]
   \<and> fst (handleStopJob jobId (Inr js) s) = s\<lparr>jobs := js, jobs_loading := False, actionLoading := None\<rparr>
   \<and> fst (handleResumeJob jobId (Inr js) s) = s\<lparr>jobs := js, jobs_loading := False, actionLoading := None\<rparr>
   \<and> fst (handleStopJob jobId (Inl e) s)
       = s\<lparr>jobs_error := Some (js_or (Some (message e)) ''Failed to load jobs''),
           jobs_loading := False, actionLoading := None\<rparr>
   \<and> fst (handleResumeJob jobId (Inl e) s)
       = s\<lparr>jobs_error := Some (js_or (Some (message e)) ''Failed to load jobs''),
           jobs_loading := False, actionLoading := None\<rparr>
   \<and> ((\<exists>d. (StopJob jobId, d) \<in> set (Jobs_actions marked j))
        \<longleftrightarrow> jobId = job_id j \<and> isAnalysisJob j \<and> status j = ''running'')
   \<and> ((\<exists>d. (ResumeJob jobId, d) \<in> set (Jobs_actions marked j))
        \<longleftrightarrow> jobId = job_id j \<and> isAnalysisJob j \<and> status j = ''paused'')"
proof -
  have c: "fst (handleStopJob jobId (Inr js) s) = s\<lparr>jobs := js, jobs_loading := False, actionLoading := None\<rparr>"
    "fst (handleResumeJob jobId (Inr js) s) = s\<lparr>jobs := js, jobs_loading := False, actionLoading := None\<rparr>"
    "fst (handleStopJob jobId (Inl e) s)
       = s\<lparr>jobs_error := Some (js_or (Some (message e)) ''Failed to load jobs''),
           jobs_loading := False, actionLoading := None\<rparr>"
    "fst (handleResumeJob jobId (Inl e) s)
       = s\<lparr>jobs_error := Some (js_or (Some (message e)) ''Failed to load jobs''),
           jobs_loading := False, actionLoading := None\<rparr>"
    by (simp_all add: handleStopJob_eq handleResumeJob_eq Jobs_loadJobs_def)
  have d: "stopJob jobId = ([], Inr ())" "resumeJob jobId = ([], Inr ())"
    "snd (handleStopJob jobId listing s) = [GetJobs]"
    "snd (handleResumeJob jobId listing s) = [GetJobs]"
    by (simp_all add: stopJob_def resumeJob_def handleStopJob_eq handleResumeJob_eq)
  from c d stop_offered [of jobId marked j] resume_offered [of jobId marked j]
  show ?thesis by blast
qed

theorem stop_resume_placeholders_witness:
  "(\<exists>d. (StopJob ''job-2'', d) \<in> set (Jobs_actions None (job ''job-2'' ''vfdb'' ''running'')))
   \<and> \<not> (\<exists>d. (StopJob ''job-2'', d) \<in> set (Jobs_actions None (job ''job-2'' ''vfdb'' ''completed'')))
   \<and> snd (handleStopJob ''job-2'' (Inr [job ''job-2'' ''vfdb'' ''running''])
        \<lparr>jobs = [job ''job-2'' ''vfdb'' ''running''], jobs_loading = False,
         jobs_error = None, actionLoading = None\<rparr>) = [GetJobs]"
  using stop_resume_placeholders [where jobId = "''job-2''" and marked = None and j = "job ''job-2'' ''vfdb'' ''running''"]
    stop_resume_placeholders [where jobId = "''job-2''" and marked = None and j = "job ''job-2'' ''vfdb'' ''completed''"]
  by (simp add: job_def isAnalysisJob_def)

subsection \<open>The PHASTEST probe\<close>

lemma run_phastest_unavailable:
  assumes "probe_unavailable probe"
  shows "handleRunAnalysis phastest probe submitted now s
     = (s\<lparr>dashboard_error := None, showPhastestFallback := True\<rparr>, [GetPhastestStatus])"
  using assms by (simp add: handleRunAnalysis_def)

lemma run_phastest_available:
  assumes "\<not> probe_unavailable probe"
  shows "snd (handleRunAnalysis phastest probe submitted now s)
     = [GetPhastestStatus, PostRunPhastest (genomeUrls s)]"
  using assms by (simp add: handleRunAnalysis_def Let_def split: sum.splits)

text \<open>
  C3. Every attempt to run PHASTEST starts with the request to the status probe. When the
  probe is rejected, or answers \<^verbatim>\<open>unavailable\<close>, the probe is the only request of the
  attempt: the run request is not sent, no job entry and no timer is created, and the
  fallback is shown. With any other answer of the probe the run request follows it.
\<close>

theorem phastest_probe_first:
  "(\<exists>rest. snd (handleRunAnalysis phastest probe submitted now s) = GetPhastestStatus # rest)
   \<and> ((\<exists>e. probe = Inl e) \<or> (\<exists>r. probe = Inr r \<and> probe_status r = ''unavailable'') \<longrightarrow>
        snd (handleRunAnalysis phastest probe submitted now s) = [GetPhastestStatus]
        \<and> PostRunPhastest g \<notin> set (snd (handleRunAnalysis phastest probe submitted now s))
        \<and> showPhastestFallback (fst (handleRunAnalysis phastest probe submitted now s))
        \<and> analysisJobs (fst (handleRunAnalysis phastest probe submitted now s)) = analysisJobs s
        \<and> pollIntervals (fst (handleRunAnalysis phastest probe submitted now s)) = pollIntervals s
        \<and> fetchJobId (fst (handleRunAnalysis phastest probe submitted now s)) = fetchJobId s)
   \<and> ((\<exists>r. probe = Inr r \<and> probe_status r \<noteq> ''unavailable'') \<longrightarrow>
        snd (handleRunAnalysis phastest probe submitted now s)
          = [GetPhastestStatus, PostRunPhastest (genomeUrls s)])"
proof -
  have first: "\<exists>rest. snd (handleRunAnalysis phastest probe submitted now s) = GetPhastestStatus # rest"
    by (cases "probe_unavailable probe")
      (simp_all add: run_phastest_unavailable run_phastest_available)
  have down: "snd (handleRunAnalysis phastest probe submitted now s) = [GetPhastestStatus]
        \<and> PostRunPhastest g \<notin> set (snd (handleRunAnalysis phastest probe submitted now s))
        \<and> showPhastestFallback (fst (handleRunAnalysis phastest probe submitted now s))
        \<and> analysisJobs (fst (handleRunAnalysis phastest probe submitted now s)) = analysisJobs s
        \<and> pollIntervals (fst (handleRunAnalysis phastest probe submitted now s)) = pollIntervals s
        \<and> fetchJobId (fst (handleRunAnalysis phastest probe submitted now s)) = fetchJobId s"
    if "(\<exists>e. probe = Inl e) \<or> (\<exists>r. probe = Inr r \<and> probe_status r = ''unavailable'')"
  proof -
    from that have "probe_unavailable probe"
      by (auto simp: probe_unavailable_def)
    then show ?thesis
      by (simp add: run_phastest_unavailable)
  qed
  have up: "snd (handleRunAnalysis phastest probe submitted now s)
          = [GetPhastestStatus, PostRunPhastest (genomeUrls s)]"
    if "\<exists>r. probe = Inr r \<and> probe_status r \<noteq> ''unavailable''"
  proof -
    from that have "\<not> probe_unavailable probe"
      by (auto simp: probe_unavailable_def)
    then show ?thesis
      by (rule run_phastest_available)
  qed
  from first down up show ?thesis by blast
qed

theorem phastest_probe_first_witness:
  "handleRunAnalysis phastest (Inl (ApiError None ''Network Error''))
       (Inr \<lparr>response_job_id = ''j1'', response_message = ''started'', response_status = ''pending''\<rparr>)
       ''2025-01-01T00:00:00.000Z'' initial
     = (initial\<lparr>showPhastestFallback := True\<rparr>, [GetPhastestStatus])
   \<and> handleRunAnalysis phastest
       (Inr \<lparr>probe_status = ''unavailable'', probe_status_code = Some 503, probe_error = None\<rparr>)
       (Inr \<lparr>response_job_id = ''j1'', response_message = ''started'', response_status = ''pending''\<rparr>)
       ''2025-01-01T00:00:00.000Z'' initial
     = (initial\<lparr>showPhastestFallback := True\<rparr>, [GetPhastestStatus])
   \<and> snd (handleRunAnalysis phastest
       (Inr \<lparr>probe_status = ''available'', probe_status_code = Some 200, probe_error = None\<rparr>)
       (Inr \<lparr>response_job_id = ''j1'', response_message = ''started'', response_status = ''pending''\<rparr>)
       ''2025-01-01T00:00:00.000Z'' initial)
     = [GetPhastestStatus, PostRunPhastest []]"
  using phastest_probe_first [of "Inl (ApiError None ''Network Error'')"
      "Inr \<lparr>response_job_id = ''j1'', response_message = ''started'', response_status = ''pending''\<rparr>"
      "''2025-01-01T00:00:00.000Z''" initial "[]"]
  by (simp add: handleRunAnalysis_def probe_unavailable_def initial_def)

subsection \<open>A blank BioProject ID\<close>

lemma trim_blank:
  assumes "\<forall>c \<in> set s. isWhiteSpace c"
  shows "trim s = []"
proof -
  from assms have blank: "dropWhile isWhiteSpace s = []"
    by simp
  show ?thesis by (simp add: trim_def blank)
qed

text \<open>
  C7. When the BioProject ID is empty or consists of white space only,
  \<^verbatim>\<open>handleFetchGenomes\<close> sets the validation message and returns before any request: no
  submission is sent, so no job identifier can be received, and the fetch job reference,
  the analysis jobs and the timers are what they were.
\<close>

theorem blank_bioproject_rejected:
  assumes "\<forall>c \<in> set (bioprojectId s). isWhiteSpace c"
  shows "handleFetchGenomes submitted s
           = (s\<lparr>dashboard_error := Some ''Please enter a BioProject ID''\<rparr>, [])
         \<and> snd (handleFetchGenomes submitted s) = []
         \<and> fetchJobId (fst (handleFetchGenomes submitted s)) = fetchJobId s
         \<and> analysisJobs (fst (handleFetchGenomes submitted s)) = analysisJobs s
         \<and> pollIntervals (fst (handleFetchGenomes submitted s)) = pollIntervals s"
  using trim_blank [OF assms] by (simp add: handleFetchGenomes_def)

theorem blank_bioproject_rejected_witness:
  "handleFetchGenomes
      (Inr \<lparr>response_job_id = ''j1'', response_message = ''started'', response_status = ''pending''\<rparr>)
      (initial\<lparr>bioprojectId := [CHR '' '', CHR 0x09, CHR '' '']\<rparr>)
    = (initial\<lparr>bioprojectId := [CHR '' '', CHR 0x09, CHR '' ''],
         dashboard_error := Some ''Please enter a BioProject ID''\<rparr>, [])
   \<and> snd (handleFetchGenomes
      (Inr \<lparr>response_job_id = ''j1'', response_message = ''started'', response_status = ''pending''\<rparr>)
      initial) = []"
proof -
  have a: "\<forall>c \<in> set (bioprojectId (initial\<lparr>bioprojectId := [CHR '' '', CHR 0x09, CHR '' '']\<rparr>)).
             isWhiteSpace c"
    by (simp add: isWhiteSpace_def)
  have b: "\<forall>c \<in> set (bioprojectId initial). isWhiteSpace c"
    by (simp add: initial_def)
  from blank_bioproject_rejected [OF a] blank_bioproject_rejected [OF b]
  show ?thesis by simp
qed

subsection \<open>The fallback download\<close>

text \<open>
  C8. The fallback handler clicks a link to the bundling endpoint and nothing else: the
  fetch job reference, the fetch status, every analysis job entry and every timer are what
  they were, and none of its requests submits a job. The service function for the same
  endpoint sends one GET to it.
\<close>

theorem fallback_creates_no_job:
  "fetchJobId (fst (handlePhastestFallback env s)) = fetchJobId s
   \<and> fetchStatus (fst (handlePhastestFallback env s)) = fetchStatus s
   \<and> analysisJobs (fst (handlePhastestFallback env s)) = analysisJobs s
   \<and> pollIntervals (fst (handlePhastestFallback env s)) = pollIntervals s
   \<and> genomeUrls (fst (handlePhastestFallback env s)) = genomeUrls s
   \<and> snd (handlePhastestFallback env s)
       = [LinkClick (js_or env ''http://localhost:5000'' @ ''/api/download-resfinder-fasta-zip'')
            ''phastest_fasta_files.zip'']
   \<and> (\<forall>r \<in> set (snd (handlePhastestFallback env s)). \<not> is_submission r)
   \<and> (\<forall>r \<in> set (fst (downloadResfinderFastaZip blob)). \<not> is_submission r)
   \<and> fst (downloadResfinderFastaZip blob) = [GetResfinderFastaZip]"
  by (simp add: handlePhastestFallback_def downloadResfinderFastaZip_def)

theorem fallback_creates_no_job_witness:
  "handlePhastestFallback None
      (initial\<lparr>analysisJobs := [(''resfinder'', job ''j1'' ''resfinder'' ''completed'')],
         showPhastestFallback := True\<rparr>)
    = (initial\<lparr>analysisJobs := [(''resfinder'', job ''j1'' ''resfinder'' ''completed'')],
         successMessage := Some ''FASTA files download started! Check your downloads folder.''\<rparr>,
       [LinkClick ''http://localhost:5000/api/download-resfinder-fasta-zip''
          ''phastest_fasta_files.zip''])"
  using fallback_creates_no_job [of None
      "initial\<lparr>analysisJobs := [(''resfinder'', job ''j1'' ''resfinder'' ''completed'')],
         showPhastestFallback := True\<rparr>"]
  by (simp add: handlePhastestFallback_def initial_def js_or_def)

subsection \<open>Rejected status queries\<close>

lemma pollJobs_fst:
  "fst (pollJobs answers (entry # rest) s) = fst (pollJobs answers rest (fst (pollJob answers entry s)))"
  by (simp split: prod.splits)

lemma pollJobs_snd:
  "snd (pollJobs answers (entry # rest) s)
     = snd (pollJob answers entry s) @ snd (pollJobs answers rest (fst (pollJob answers entry s)))"
  by (simp split: prod.splits)

text \<open>The definitions a concrete run unfolds.\<close>

lemmas run_defs = initial_def job_def accepted_def available_def clock_def notFound_def always_def
  handleRunAnalysis_def probe_unavailable_def runPollTick_def clearInterval_def
  analysisPollTick_def jobsToPoll_def pollJob_def fetchPollTick_def handleFetchGenomes_def
  trim_def isWhiteSpace_def result_genomes_def Let_def js_or_def

lemma rejected_poll_unchanged:
  "fst (fetchPollTick (Inl err) s) = s"
  "fst (analysisPollTick (\<lambda>jobId. Inl err) s) = s"
proof -
  show "fst (fetchPollTick (Inl err) s) = s"
    by (simp add: fetchPollTick_def split: option.splits)
  have "fst (pollJobs (\<lambda>jobId. Inl err) js s) = s" for js
    by (induction js) (simp_all add: pollJobs_fst pollJob_def split: prod.splits del: pollJobs.simps(2))
  then show "fst (analysisPollTick (\<lambda>jobId. Inl err) s) = s"
    by (simp add: analysisPollTick_def)
qed

text \<open>
  C4. A client that stops polling a job on the first rejected status query issues no
  further query for it. The timer of \<^verbatim>\<open>handleRunAnalysis\<close> does stop: it is cleared by the
  rejection and its next tick is silent. The poller of the analysis jobs and the fetch
  poller only log the rejection and leave their state as it was: in the first run job
  \<^verbatim>\<open>j1\<close> is queried again at each of the two ticks that follow the rejection, and in the
  second run the fetch job \<^verbatim>\<open>f1\<close> is queried again after its query was rejected.
\<close>

theorem rejected_poll_keeps_polling:
  "issued initial
     [RunAnalysisClicked resfinder available (accepted ''j1'') clock,
      RunPollFired 0 (Inl notFound),
      RunPollFired 0 (Inl notFound),
      AnalysisPollFired (always (Inl notFound)),
      AnalysisPollFired (always (Inl notFound))]
     = [[PostRunResfinder []], [GetJobStatus ''j1''], [], [GetJobStatus ''j1''], [GetJobStatus ''j1'']]
   \<and> issued (initial\<lparr>bioprojectId := ''PRJNA1''\<rparr>)
     [FetchGenomesClicked (accepted ''f1''),
      FetchPollFired (Inl notFound),
      FetchPollFired (Inl notFound)]
     = [[PostFetchGenomes ''PRJNA1''], [GetJobStatus ''f1''], [GetJobStatus ''f1'']]"
  by (simp add: run_defs)

subsection \<open>Polling in timed runs\<close>






















subsection \<open>The fetch poller in timed runs\<close>











subsection \<open>The poller of the analysis jobs in timed runs\<close>











text \<open>
  The callbacks of the untimed runs are a tick of the timed client and, at once, the answer
  to its query.
\<close>

lemma atomic_callbacks:
  "fetchJobId d = Some jobId \<Longrightarrow> jobId \<noteq> [] \<Longrightarrow>
     fetchPollTick answer d = (fetchPollAnswer answer d, [GetJobStatus jobId])"
  "k < length (pollIntervals d) \<Longrightarrow> poll_active (pollIntervals d ! k) \<Longrightarrow>
     runPollTick k answer d
       = (runPollAnswer k (poll_type (pollIntervals d ! k)) answer d,
          [GetJobStatus (poll_jobId (pollIntervals d ! k))])"
  "pollJob answers (t, j) d
     = (fst (pollJobAnswer t (answers (job_id j)) d),
        GetJobStatus (job_id j) # snd (pollJobAnswer t (answers (job_id j)) d))"
  by (simp_all add: fetchPollTick_def fetchPollAnswer_def runPollTick_def runPollAnswer_def
        pollJob_def pollJobAnswer_def Let_def split: sum.splits)




















end
